theory Spec2Isabelle
  imports Main "HOL-Library.Sublist"
begin

section \<open>Values: what \<open>json.loads\<close> hands to the server\<close>

text \<open>
  The server (\<open>src/mcp/servers/github/server.py\<close>) reads one JSON document per line and
  works on the Python value \<open>json.loads\<close> returns: \<open>None\<close>, a \<open>bool\<close>, an \<open>int\<close>, a
  \<open>float\<close>, a \<open>str\<close>, a \<open>list\<close> or a \<open>dict\<close> with string keys. A dict is an association
  list read by its first matching key. Of a float only its truth value is used by the
  server, so a float is a mantissa and a binary exponent, an infinity or a NaN.
\<close>

datatype pyfloat = Finite int int | Infinite bool | NaN

datatype json =
    JNull
  | JBool bool
  | JInt int
  | JFloat pyfloat
  | JStr string
  | JArr "json list"
  | JObj "(string \<times> json) list"

text \<open>Python's truth value of an object, as \<open>if not x\<close> and \<open>x or y\<close> test it.\<close>

fun truthy :: "json \<Rightarrow> bool" where
  "truthy JNull = False"
| "truthy (JBool b) = b"
| "truthy (JInt i) = (i \<noteq> 0)"
| "truthy (JFloat (Finite m e)) = (m \<noteq> 0)"
| "truthy (JFloat (Infinite s)) = True"
| "truthy (JFloat NaN) = True"
| "truthy (JStr s) = (s \<noteq> [])"
| "truthy (JArr xs) = (xs \<noteq> [])"
| "truthy (JObj kvs) = (kvs \<noteq> [])"

text \<open>\<open>d.get(k, default)\<close> on a dict; \<open>d.get(k)\<close> is \<open>py_get d k JNull\<close>.\<close>

definition py_get :: "(string \<times> json) list \<Rightarrow> string \<Rightarrow> json \<Rightarrow> json" where
  "py_get kvs k dflt = (case map_of kvs k of None \<Rightarrow> dflt | Some v \<Rightarrow> v)"

text \<open>
  The exceptions the server's own statements can raise: \<open>x.get\<close> on a value that is not a
  dict, \<open>list + x\<close> and \<open>', '.join(xs)\<close> on the wrong types, \<open>d[k]\<close> on a missing key, and
  whatever else \<open>json.loads\<close> raises besides a decode error.
\<close>

datatype exn = AttributeError | TypeError | KeyError | LoadsError

subsection \<open>\<open>str(x)\<close> inside f-strings\<close>

fun show_nat :: "nat \<Rightarrow> string" where
  "show_nat n =
     (if n < 10 then [''0123456789'' ! n]
      else show_nat (n div 10) @ [''0123456789'' ! (n mod 10)])"

declare show_nat.simps [simp del]

definition show_int :: "int \<Rightarrow> string" where
  "show_int i = (if i < 0 then ''-'' @ show_nat (nat (- i)) else show_nat (nat i))"

text \<open>
  \<open>str\<close> of a string is the string, of \<open>None\<close>, a bool and an int the usual text; the
  \<open>repr\<close> of floats, lists and dicts is a parameter \<open>rp\<close> of the model.
\<close>

fun py_str :: "(json \<Rightarrow> string) \<Rightarrow> json \<Rightarrow> string" where
  "py_str rp (JStr s) = s"
| "py_str rp JNull = ''None''"
| "py_str rp (JBool b) = (if b then ''True'' else ''False'')"
| "py_str rp (JInt i) = show_int i"
| "py_str rp v = rp v"

section \<open>The outside world and the server's state\<close>

text \<open>
  What \<open>subprocess.run(..., capture_output=True, text=True, check=False)\<close> returns when the
  process ran to completion.
\<close>

record completed =
  cp_returncode :: int
  cp_stdout :: string
  cp_stderr :: string

text \<open>
  The environment: \<open>os.path.exists\<close> and \<open>subprocess.run\<close> over an abstract world \<open>'s\<close>.
  Either may raise (\<open>Inl\<close> carries \<open>str(e)\<close>); running a command may change the world.
\<close>

record 's env =
  path_exists :: "'s \<Rightarrow> json \<Rightarrow> string + bool"
  subprocess_run :: "'s \<Rightarrow> json list \<Rightarrow> json \<Rightarrow> (string + completed) \<times> 's"
  py_repr :: "json \<Rightarrow> string"

text \<open>The dict \<open>_run_git_command\<close> returns; a key that is not set is \<open>None\<close>.\<close>

record git_result =
  success :: bool
  error :: "string option"
  stdout :: "string option"
  stderr :: "string option"
  returncode :: "int option"

text \<open>
  The state threaded through the server: the world, the lines printed on standard output
  (each the response object given to \<open>json.dumps\<close>), the exceptions reported on standard
  error, and two logs kept for the statements below: every call of \<open>subprocess.run\<close>
  with its command and working directory, and every call of \<open>_run_git_command\<close> with
  its result.
\<close>

record 's state =
  world :: 's
  sent :: "json list"
  diagnostics :: "exn list"
  launched :: "(json list \<times> json) list"
  invocations :: "(json list \<times> json \<times> git_result) list"

section \<open>Responses\<close>

definition send_response :: "json \<Rightarrow> json \<Rightarrow> 's state \<Rightarrow> 's state" where
  "send_response result request_id st =
     st\<lparr>sent := sent st @
       [JObj ([(''jsonrpc'', JStr ''2.0''), (''result'', result)] @
              (if request_id \<noteq> JNull then [(''id'', request_id)] else []))]\<rparr>"

definition send_error :: "int \<Rightarrow> string \<Rightarrow> json \<Rightarrow> 's state \<Rightarrow> 's state" where
  "send_error code message request_id st =
     st\<lparr>sent := sent st @
       [JObj ([(''jsonrpc'', JStr ''2.0''),
               (''error'', JObj [(''code'', JInt code), (''message'', JStr message)])] @
              (if request_id \<noteq> JNull then [(''id'', request_id)] else []))]\<rparr>"

section \<open>The process invoker\<close>

definition failed :: "string \<Rightarrow> git_result" where
  "failed e = \<lparr>success = False, error = Some e, stdout = None, stderr = None,
               returncode = None\<rparr>"

definition finished :: "completed \<Rightarrow> git_result" where
  "finished cp = \<lparr>success = (cp_returncode cp = 0), error = None,
                   stdout = Some (cp_stdout cp), stderr = Some (cp_stderr cp),
                   returncode = Some (cp_returncode cp)\<rparr>"

definition record_call ::
  "json list \<Rightarrow> json \<Rightarrow> git_result \<Rightarrow> 's state \<Rightarrow> git_result \<times> 's state" where
  "record_call command cwd r st =
     (r, st\<lparr>invocations := invocations st @ [(command, cwd, r)]\<rparr>)"

definition run_git_command ::
  "'s env \<Rightarrow> json list \<Rightarrow> json \<Rightarrow> 's state \<Rightarrow> git_result \<times> 's state" where
  "run_git_command env command cwd st =
     (case path_exists env (world st) cwd of
        Inl e \<Rightarrow> record_call command cwd (failed e) st
      | Inr False \<Rightarrow>
          record_call command cwd
            (failed (''Directory does not exist: '' @ py_str (py_repr env) cwd)) st
      | Inr True \<Rightarrow>
          (case subprocess_run env (world st) command cwd of
             (outcome, w) \<Rightarrow>
               record_call command cwd
                 (case outcome of Inl e \<Rightarrow> failed e | Inr cp \<Rightarrow> finished cp)
                 (st\<lparr>world := w, launched := launched st @ [(command, cwd)]\<rparr>)))"

text \<open>\<open>result.get('error', result.get('stderr', 'Unknown error'))\<close>\<close>

definition error_text :: "git_result \<Rightarrow> string" where
  "error_text r =
     (case error r of Some e \<Rightarrow> e
      | None \<Rightarrow> (case stderr r of Some s \<Rightarrow> s | None \<Rightarrow> ''Unknown error''))"

section \<open>Tool handlers\<close>

text \<open>
  A handler takes the \<open>arguments\<close> value and returns its summary text, or raises. Its first
  statement is \<open>args.get(...)\<close>, which raises \<open>AttributeError\<close> on anything but a dict.
\<close>

type_synonym 's handler_result = "(exn + string) \<times> 's state"

definition git :: "string list \<Rightarrow> json list" where
  "git ws = JStr ''git'' # map JStr ws"

definition handle_git_status :: "'s env \<Rightarrow> json \<Rightarrow> 's state \<Rightarrow> 's handler_result" where
  "handle_git_status env args st =
     (case args of
        JObj kvs \<Rightarrow>
          let repo_path = py_get kvs ''repo_path'' JNull in
          if \<not> truthy repo_path then (Inr ''Error: repo_path is required'', st)
          else
            (case run_git_command env (git [''status'']) repo_path st of
               (result, st') \<Rightarrow>
                 if success result then
                   (case stdout result of
                      None \<Rightarrow> (Inl KeyError, st')
                    | Some out \<Rightarrow>
                        (Inr (''Git status for '' @ py_str (py_repr env) repo_path @
                              '':\<newline>'' @ out), st'))
                 else (Inr (''Error: '' @ error_text result), st'))
      | _ \<Rightarrow> (Inl AttributeError, st))"

text \<open>The statements of \<open>_handle_git_branch\<close> after its \<open>if\<close>/\<open>elif\<close> chain.\<close>

definition branch_summary ::
  "'s env \<Rightarrow> json \<Rightarrow> git_result \<times> 's state \<Rightarrow> 's handler_result" where
  "branch_summary env action rs =
     (case rs of
        (result, st') \<Rightarrow>
          if success result then
            (case stdout result of
               None \<Rightarrow> (Inl KeyError, st')
             | Some out \<Rightarrow>
                 let output =
                       (if out \<noteq> [] then out
                        else ''Successfully performed '' @ py_str (py_repr env) action @
                             '' operation'')
                 in if action = JStr ''checkout'' then
                      (case stderr result of
                         None \<Rightarrow> (Inl KeyError, st')
                       | Some e \<Rightarrow> (Inr (if e \<noteq> [] then e else output), st'))
                    else (Inr output, st'))
          else (Inr (''Error: '' @ error_text result), st'))"

definition handle_git_branch :: "'s env \<Rightarrow> json \<Rightarrow> 's state \<Rightarrow> 's handler_result" where
  "handle_git_branch env args st =
     (case args of
        JObj kvs \<Rightarrow>
          let repo_path = py_get kvs ''repo_path'' JNull;
              action = py_get kvs ''action'' JNull;
              branch_name = py_get kvs ''branch_name'' JNull
          in
          if \<not> truthy repo_path \<or> \<not> truthy action then
            (Inr ''Error: repo_path and action are required'', st)
          else if action = JStr ''list'' then
            branch_summary env action
              (run_git_command env (git [''branch'', ''-a'']) repo_path st)
          else if action = JStr ''create'' then
            (if \<not> truthy branch_name then
               (Inr ''Error: branch_name is required for create action'', st)
             else branch_summary env action
                    (run_git_command env (git [''branch''] @ [branch_name]) repo_path st))
          else if action = JStr ''delete'' then
            (if \<not> truthy branch_name then
               (Inr ''Error: branch_name is required for delete action'', st)
             else branch_summary env action
                    (run_git_command env (git [''branch'', ''-d''] @ [branch_name])
                       repo_path st))
          else if action = JStr ''checkout'' then
            (if \<not> truthy branch_name then
               (Inr ''Error: branch_name is required for checkout action'', st)
             else branch_summary env action
                    (run_git_command env (git [''checkout''] @ [branch_name]) repo_path st))
          else (Inr (''Error: Unknown action: '' @ py_str (py_repr env) action), st)
      | _ \<Rightarrow> (Inl AttributeError, st))"

text \<open>The statements of \<open>_handle_git_commit\<close> from \<open># Create commit\<close> on.\<close>

definition create_commit ::
  "'s env \<Rightarrow> json \<Rightarrow> json \<Rightarrow> 's state \<Rightarrow> 's handler_result" where
  "create_commit env repo_path message st =
     (case run_git_command env (git [''commit'', ''-m''] @ [message]) repo_path st of
        (result, st') \<Rightarrow>
          if success result then
            (case stdout result of
               None \<Rightarrow> (Inl KeyError, st')
             | Some out \<Rightarrow> (Inr (''Commit created successfully:\<newline>'' @ out), st'))
          else (Inr (''Error: '' @ error_text result), st'))"

definition handle_git_commit :: "'s env \<Rightarrow> json \<Rightarrow> 's state \<Rightarrow> 's handler_result" where
  "handle_git_commit env args st =
     (case args of
        JObj kvs \<Rightarrow>
          let repo_path = py_get kvs ''repo_path'' JNull;
              message = py_get kvs ''message'' JNull;
              add_all = py_get kvs ''add_all'' (JBool False)
          in
          if \<not> truthy repo_path \<or> \<not> truthy message then
            (Inr ''Error: repo_path and message are required'', st)
          else if truthy add_all then
            (case run_git_command env (git [''add'', ''-A'']) repo_path st of
               (add_result, st1) \<Rightarrow>
                 if \<not> success add_result then
                   (Inr (''Error adding files: '' @ error_text add_result), st1)
                 else create_commit env repo_path message st1)
          else create_commit env repo_path message st
      | _ \<Rightarrow> (Inl AttributeError, st))"

definition handle_git_push :: "'s env \<Rightarrow> json \<Rightarrow> 's state \<Rightarrow> 's handler_result" where
  "handle_git_push env args st =
     (case args of
        JObj kvs \<Rightarrow>
          let repo_path = py_get kvs ''repo_path'' JNull;
              branch = py_get kvs ''branch'' JNull;
              force = py_get kvs ''force'' (JBool False)
          in
          if \<not> truthy repo_path then (Inr ''Error: repo_path is required'', st)
          else
            let cmd = git [''push''] @ (if truthy force then [JStr ''--force''] else []) @
                      (if truthy branch then [JStr ''origin'', branch] else [])
            in
            (case run_git_command env cmd repo_path st of
               (result, st') \<Rightarrow>
                 if success result then
                   (case stdout result of
                      None \<Rightarrow> (Inl KeyError, st')
                    | Some out \<Rightarrow>
                        if out \<noteq> [] then (Inr out, st')
                        else
                          (case stderr result of
                             None \<Rightarrow> (Inl KeyError, st')
                           | Some e \<Rightarrow>
                               (Inr (if e \<noteq> [] then e else ''Push completed successfully''),
                                st')))
                 else (Inr (''Error: '' @ error_text result), st'))
      | _ \<Rightarrow> (Inl AttributeError, st))"

definition handle_git_pull :: "'s env \<Rightarrow> json \<Rightarrow> 's state \<Rightarrow> 's handler_result" where
  "handle_git_pull env args st =
     (case args of
        JObj kvs \<Rightarrow>
          let repo_path = py_get kvs ''repo_path'' JNull;
              branch = py_get kvs ''branch'' JNull
          in
          if \<not> truthy repo_path then (Inr ''Error: repo_path is required'', st)
          else
            let cmd = git [''pull''] @ (if truthy branch then [JStr ''origin'', branch] else [])
            in
            (case run_git_command env cmd repo_path st of
               (result, st') \<Rightarrow>
                 if success result then
                   (case stdout result of
                      None \<Rightarrow> (Inl KeyError, st')
                    | Some out \<Rightarrow> (Inr (''Pull completed successfully:\<newline>'' @ out), st'))
                 else (Inr (''Error: '' @ error_text result), st'))
      | _ \<Rightarrow> (Inl AttributeError, st))"

definition handle_git_log :: "'s env \<Rightarrow> json \<Rightarrow> 's state \<Rightarrow> 's handler_result" where
  "handle_git_log env args st =
     (case args of
        JObj kvs \<Rightarrow>
          let repo_path = py_get kvs ''repo_path'' JNull;
              limit = py_get kvs ''limit'' (JInt 10)
          in
          if \<not> truthy repo_path then (Inr ''Error: repo_path is required'', st)
          else
            (case run_git_command env
                    (git [''log'', ''-'' @ py_str (py_repr env) limit, ''--oneline'',
                          ''--decorate'', ''--graph''])
                    repo_path st of
               (result, st') \<Rightarrow>
                 if success result then
                   (case stdout result of
                      None \<Rightarrow> (Inl KeyError, st')
                    | Some out \<Rightarrow>
                        (Inr (''Git log (last '' @ py_str (py_repr env) limit @
                              '' commits):\<newline>'' @ out), st'))
                 else (Inr (''Error: '' @ error_text result), st'))
      | _ \<Rightarrow> (Inl AttributeError, st))"

text \<open>\<open>', '.join(files)\<close>: every item must be a \<open>str\<close>.\<close>

fun join_strs :: "string \<Rightarrow> json list \<Rightarrow> exn + string" where
  "join_strs sep [] = Inr []"
| "join_strs sep [JStr s] = Inr s"
| "join_strs sep (JStr s # x # xs) =
     (case join_strs sep (x # xs) of Inl e \<Rightarrow> Inl e | Inr r \<Rightarrow> Inr (s @ sep @ r))"
| "join_strs sep (_ # xs) = Inl TypeError"

text \<open>
  \<open>["git", "add"] + files\<close> raises \<open>TypeError\<close> unless \<open>files\<close> is a list; a truthy string
  or dict gets past the check before it.
\<close>

definition handle_git_add :: "'s env \<Rightarrow> json \<Rightarrow> 's state \<Rightarrow> 's handler_result" where
  "handle_git_add env args st =
     (case args of
        JObj kvs \<Rightarrow>
          let repo_path = py_get kvs ''repo_path'' JNull;
              files = py_get kvs ''files'' (JArr [])
          in
          if \<not> truthy repo_path \<or> \<not> truthy files then
            (Inr ''Error: repo_path and files are required'', st)
          else
            (case files of
               JArr fs \<Rightarrow>
                 (case run_git_command env (git [''add''] @ fs) repo_path st of
                    (result, st') \<Rightarrow>
                      if success result then
                        (case join_strs '', '' fs of
                           Inl e \<Rightarrow> (Inl e, st')
                         | Inr joined \<Rightarrow>
                             (Inr (''Files staged successfully: '' @ joined), st'))
                      else (Inr (''Error: '' @ error_text result), st'))
             | _ \<Rightarrow> (Inl TypeError, st))
      | _ \<Rightarrow> (Inl AttributeError, st))"

section \<open>The dispatch engine\<close>

definition handle_initialize :: "json \<Rightarrow> json \<Rightarrow> 's state \<Rightarrow> 's state" where
  "handle_initialize params request_id st =
     send_response
       (JObj [(''protocolVersion'', JStr ''2024-11-05''),
              (''capabilities'', JObj [(''tools'', JObj [])]),
              (''serverInfo'', JObj [(''name'', JStr ''github-mcp-server''),
                                     (''version'', JStr ''1.0.0'')])])
       request_id st"

subsection \<open>The tool registry\<close>

definition repo_path_property :: "string \<times> json" where
  "repo_path_property =
     (''repo_path'', JObj [(''type'', JStr ''string''),
        (''description'', JStr ''The absolute path to the git repository'')])"

definition descriptor :: "string \<Rightarrow> string \<Rightarrow> (string \<times> json) list \<Rightarrow> string list \<Rightarrow> json" where
  "descriptor name description properties required =
     JObj [(''name'', JStr name), (''description'', JStr description),
           (''inputSchema'', JObj [(''type'', JStr ''object''),
              (''properties'', JObj properties),
              (''required'', JArr (map JStr required))])]"

definition tools :: "json list" where
  "tools =
    [descriptor ''git_status'' ''Get the current git status of a repository''
       [repo_path_property]
       [''repo_path''],
     descriptor ''git_branch'' ''List, create, or delete git branches''
       [repo_path_property,
        (''action'', JObj [(''type'', JStr ''string''),
           (''enum'', JArr [JStr ''list'', JStr ''create'', JStr ''delete'', JStr ''checkout'']),
           (''description'', JStr ''The branch operation to perform'')]),
        (''branch_name'', JObj [(''type'', JStr ''string''),
           (''description'',
            JStr ''The name of the branch (required for create, delete, checkout)'')])]
       [''repo_path'', ''action''],
     descriptor ''git_commit'' ''Create a git commit with the specified message''
       [repo_path_property,
        (''message'', JObj [(''type'', JStr ''string''),
           (''description'', JStr ''The commit message'')]),
        (''add_all'', JObj [(''type'', JStr ''boolean''),
           (''description'',
            JStr ''Whether to add all changed files before committing (git add -A)''),
           (''default'', JBool False)])]
       [''repo_path'', ''message''],
     descriptor ''git_push'' ''Push commits to the remote repository''
       [repo_path_property,
        (''branch'', JObj [(''type'', JStr ''string''),
           (''description'',
            JStr ''The branch to push (optional, defaults to current branch)'')]),
        (''force'', JObj [(''type'', JStr ''boolean''),
           (''description'', JStr ''Whether to force push''),
           (''default'', JBool False)])]
       [''repo_path''],
     descriptor ''git_pull'' ''Pull changes from the remote repository''
       [repo_path_property,
        (''branch'', JObj [(''type'', JStr ''string''),
           (''description'',
            JStr ''The branch to pull (optional, defaults to current branch)'')])]
       [''repo_path''],
     descriptor ''git_log'' ''Show git commit history''
       [repo_path_property,
        (''limit'', JObj [(''type'', JStr ''integer''),
           (''description'', JStr ''Number of commits to show''),
           (''default'', JInt 10)])]
       [''repo_path''],
     descriptor ''git_add'' ''Stage files for commit''
       [repo_path_property,
        (''files'', JObj [(''type'', JStr ''array''),
           (''items'', JObj [(''type'', JStr ''string'')]),
           (''description'',
            JStr (''List of files to add (use ['' @ [CHR 0x27] @ ''.'' @ [CHR 0x27] @
                  ''] to add all)''))])]
       [''repo_path'', ''files'']]"

definition handle_tools_list :: "json \<Rightarrow> 's state \<Rightarrow> 's state" where
  "handle_tools_list request_id st =
     send_response (JObj [(''tools'', JArr tools)]) request_id st"

subsection \<open>Calling a tool\<close>

text \<open>
  The last statement of \<open>handle_tools_call\<close>: the handler's text wrapped as the content of
  a result. A handler that raised leaves \<open>handle_tools_call\<close> by its exception.
\<close>

definition send_content :: "json \<Rightarrow> 's handler_result \<Rightarrow> (exn + unit) \<times> 's state" where
  "send_content request_id hr =
     (case hr of
        (Inl e, st') \<Rightarrow> (Inl e, st')
      | (Inr result, st') \<Rightarrow>
          (Inr (),
           send_response
             (JObj [(''content'',
                     JArr [JObj [(''type'', JStr ''text''), (''text'', JStr result)]])])
             request_id st'))"

definition handle_tools_call ::
  "'s env \<Rightarrow> json \<Rightarrow> json \<Rightarrow> 's state \<Rightarrow> (exn + unit) \<times> 's state" where
  "handle_tools_call env params request_id st =
     (case params of
        JObj kvs \<Rightarrow>
          let tool_name = py_get kvs ''name'' JNull;
              arguments = py_get kvs ''arguments'' (JObj [])
          in
          if tool_name = JStr ''git_status'' then
            send_content request_id (handle_git_status env arguments st)
          else if tool_name = JStr ''git_branch'' then
            send_content request_id (handle_git_branch env arguments st)
          else if tool_name = JStr ''git_commit'' then
            send_content request_id (handle_git_commit env arguments st)
          else if tool_name = JStr ''git_push'' then
            send_content request_id (handle_git_push env arguments st)
          else if tool_name = JStr ''git_pull'' then
            send_content request_id (handle_git_pull env arguments st)
          else if tool_name = JStr ''git_log'' then
            send_content request_id (handle_git_log env arguments st)
          else if tool_name = JStr ''git_add'' then
            send_content request_id (handle_git_add env arguments st)
          else
            (Inr (),
             send_error (- 32601) (''Unknown tool: '' @ py_str (py_repr env) tool_name)
               request_id st)
      | _ \<Rightarrow> (Inl AttributeError, st))"

section \<open>The transport loop\<close>

text \<open>
  What \<open>json.loads(line)\<close> does with a line read from standard input: it returns a value,
  raises \<open>JSONDecodeError\<close> (with \<open>str(e)\<close>), or raises something else. The text of the
  line itself is not modelled, and neither is \<open>KeyboardInterrupt\<close>.
\<close>

datatype line = Decoded json | JSONDecodeError string | LoadsRaised

text \<open>\<open>print(f"Unexpected error: {str(e)}", file=sys.stderr)\<close>\<close>

definition report :: "exn \<Rightarrow> 's state \<Rightarrow> 's state" where
  "report e st = st\<lparr>diagnostics := diagnostics st @ [e]\<rparr>"

text \<open>One turn of the \<open>while True\<close> loop of \<open>run\<close>, for a line that is not the end of input.\<close>

definition handle_line :: "'s env \<Rightarrow> line \<Rightarrow> 's state \<Rightarrow> 's state" where
  "handle_line env ln st =
     (case ln of
        JSONDecodeError e \<Rightarrow> send_error (- 32700) (''Parse error: '' @ e) JNull st
      | LoadsRaised \<Rightarrow> report LoadsError st
      | Decoded request \<Rightarrow>
          (case request of
             JObj kvs \<Rightarrow>
               let method = py_get kvs ''method'' JNull;
                   params = py_get kvs ''params'' (JObj []);
                   request_id = py_get kvs ''id'' JNull
               in
               if method = JStr ''initialize'' then handle_initialize params request_id st
               else if method = JStr ''initialized'' then st
               else if method = JStr ''tools/list'' then handle_tools_list request_id st
               else if method = JStr ''tools/call'' then
                 (case handle_tools_call env params request_id st of
                    (Inl e, st') \<Rightarrow> report e st'
                  | (Inr u, st') \<Rightarrow> st')
               else if request_id \<noteq> JNull then
                 send_error (- 32601) (''Method not found: '' @ py_str (py_repr env) method)
                   request_id st
               else st
           | _ \<Rightarrow> report AttributeError st))"

text \<open>The loop over the lines of standard input, up to its end.\<close>

definition run :: "'s env \<Rightarrow> line list \<Rightarrow> 's state \<Rightarrow> 's state" where
  "run env lines st = foldl (\<lambda>s ln. handle_line env ln s) st lines"

section \<open>Tables read off the code, and a sample environment\<close>

text \<open>
  The binding of tool names to handlers that the \<open>if\<close>/\<open>elif\<close> chain of
  \<open>handle_tools_call\<close> implements (lemma \<open>handle_tools_call_known\<close> below).
\<close>

definition tool_handlers ::
  "'s env \<Rightarrow> (string \<times> (json \<Rightarrow> 's state \<Rightarrow> 's handler_result)) list" where
  "tool_handlers env =
     [(''git_status'', handle_git_status env),
      (''git_branch'', handle_git_branch env),
      (''git_commit'', handle_git_commit env),
      (''git_push'', handle_git_push env),
      (''git_pull'', handle_git_pull env),
      (''git_log'', handle_git_log env),
      (''git_add'', handle_git_add env)]"

text \<open>Reading a descriptor of the registry: \<open>d[k]\<close>, the names, a tool's \<open>required\<close> list.\<close>

definition member :: "json \<Rightarrow> string \<Rightarrow> json" where
  "member d k = (case d of JObj kvs \<Rightarrow> py_get kvs k JNull | _ \<Rightarrow> JNull)"

definition items :: "json \<Rightarrow> json list" where
  "items v = (case v of JArr xs \<Rightarrow> xs | _ \<Rightarrow> [])"

definition tool_names :: "json list" where
  "tool_names = map (\<lambda>d. member d ''name'') tools"

definition required_of :: "string \<Rightarrow> json list" where
  "required_of n =
     concat (map (\<lambda>d. items (member (member d ''inputSchema'') ''required''))
               (filter (\<lambda>d. member d ''name'' = JStr n) tools))"

text \<open>\<open>del d[k]\<close>: the dict without the key.\<close>

definition without :: "string \<Rightarrow> (string \<times> json) list \<Rightarrow> (string \<times> json) list" where
  "without k kvs = filter (\<lambda>kv. fst kv \<noteq> k) kvs"

text \<open>The results of \<open>_run_git_command\<close> logged between two states.\<close>

definition new_results :: "'s state \<Rightarrow> 's state \<Rightarrow> git_result list" where
  "new_results st st' =
     map (\<lambda>c. snd (snd c)) (drop (length (invocations st)) (invocations st'))"

text \<open>
  A small world for evaluating the model: the only directory is \<open>/repo\<close>, \<open>git add -A\<close>
  exits with 128 there and every other command with 0; the world counts the processes run.
\<close>

definition sample_env :: "nat env" where
  "sample_env =
     \<lparr>path_exists = (\<lambda>w p. Inr (p = JStr ''/repo'')),
      subprocess_run = (\<lambda>w command cwd.
        (if command = git [''add'', ''-A'']
         then Inr \<lparr>cp_returncode = 128, cp_stdout = [], cp_stderr = ''fatal: cannot add''\<rparr>
         else Inr \<lparr>cp_returncode = 0, cp_stdout = ''ok'', cp_stderr = []\<rparr>,
         Suc w)),
      py_repr = (\<lambda>v. ''?'')\<rparr>"

definition start :: "nat state" where
  "start = \<lparr>world = 0, sent = [], diagnostics = [], launched = [], invocations = []\<rparr>"

section \<open>Facts about the process invoker\<close>

lemma run_git_command_invocations:
  "run_git_command env c d st = (r, st') \<Longrightarrow> invocations st' = invocations st @ [(c, d, r)]"
  by (auto simp: run_git_command_def record_call_def split: sum.splits bool.splits prod.splits)

lemma run_git_command_missing:
  "path_exists env (world st) cwd = Inr False \<Longrightarrow>
   run_git_command env c cwd st =
     (failed (''Directory does not exist: '' @ py_str (py_repr env) cwd),
      st\<lparr>invocations := invocations st @
           [(c, cwd, failed (''Directory does not exist: '' @ py_str (py_repr env) cwd))]\<rparr>)"
  by (simp add: run_git_command_def record_call_def)

lemma error_text_failed [simp]: "error_text (failed e) = e"
  by (simp add: error_text_def failed_def)

lemma success_failed [simp]: "\<not> success (failed e)"
  by (simp add: failed_def)

text \<open>
  Claim C6. When the working directory exists and the external command runs to completion,
  the result of \<open>_run_git_command\<close> has \<open>success\<close> true exactly when the exit code is zero,
  and it carries the captured \<open>stdout\<close>, \<open>stderr\<close> and \<open>returncode\<close> (and no \<open>error\<close>)
  whatever the exit code is.
\<close>

theorem run_git_command_exit_code:
  assumes "path_exists env (world st) cwd = Inr True"
    and "subprocess_run env (world st) command cwd = (Inr cp, w)"
  shows "(case run_git_command env command cwd st of
            (r, st') \<Rightarrow>
              (success r \<longleftrightarrow> cp_returncode cp = 0) \<and>
              stdout r = Some (cp_stdout cp) \<and> stderr r = Some (cp_stderr cp) \<and>
              returncode r = Some (cp_returncode cp) \<and> error r = None \<and>
              launched st' = launched st @ [(command, cwd)])"
  using assms by (simp add: run_git_command_def record_call_def finished_def)

theorem run_git_command_exit_code_witness:
  "(case run_git_command sample_env (git [''add'', ''-A'']) (JStr ''/repo'') start of
      (r, st') \<Rightarrow>
        \<not> success r \<and> stdout r = Some [] \<and> stderr r = Some ''fatal: cannot add'' \<and>
        returncode r = Some 128 \<and> error r = None) \<and>
   (case run_git_command sample_env (git [''status'']) (JStr ''/repo'') start of
      (r, st') \<Rightarrow>
        success r \<and> stdout r = Some ''ok'' \<and> stderr r = Some [] \<and>
        returncode r = Some 0 \<and> error r = None)"
  using run_git_command_exit_code [of sample_env start "JStr ''/repo''" "git [''add'', ''-A'']"
          "\<lparr>cp_returncode = 128, cp_stdout = [], cp_stderr = ''fatal: cannot add''\<rparr>" 1]
        run_git_command_exit_code [of sample_env start "JStr ''/repo''" "git [''status'']"
          "\<lparr>cp_returncode = 0, cp_stdout = ''ok'', cp_stderr = []\<rparr>" 1]
  by (simp add: sample_env_def start_def git_def split: prod.splits)

lemma tool_handlers_ball:
  "(\<forall>(n, h) \<in> set (tool_handlers env). P n h) \<longleftrightarrow>
   P ''git_status'' (handle_git_status env) \<and> P ''git_branch'' (handle_git_branch env) \<and>
   P ''git_commit'' (handle_git_commit env) \<and> P ''git_push'' (handle_git_push env) \<and>
   P ''git_pull'' (handle_git_pull env) \<and> P ''git_log'' (handle_git_log env) \<and>
   P ''git_add'' (handle_git_add env)"
  by (simp add: tool_handlers_def)

lemma new_results_append [simp]:
  "new_results st (st\<lparr>invocations := invocations st @ xs\<rparr>) = map (\<lambda>c. snd (snd c)) xs"
  by (simp add: new_results_def)

text \<open>
  Claim C5. When \<open>os.path.exists\<close> says the working directory is not there,
  \<open>_run_git_command\<close> returns \<open>success = False\<close> with the error
  \<open>Directory does not exist: <path>\<close>, launches no process and leaves the world as it was.
  For a directory a handler accepts as \<open>repo_path\<close> (a truthy value), every tool's handler
  has arguments on which it gets this result from the invoker and reports it.
\<close>

theorem missing_directory:
  assumes "path_exists env (world st) cwd = Inr False"
  shows "(case run_git_command env command cwd st of
            (r, st') \<Rightarrow>
              r = \<lparr>success = False,
                   error = Some (''Directory does not exist: '' @ py_str (py_repr env) cwd),
                   stdout = None, stderr = None, returncode = None\<rparr> \<and>
              launched st' = launched st \<and> world st' = world st) \<and>
         (truthy cwd \<longrightarrow>
            (\<forall>(n, h) \<in> set (tool_handlers env).
               \<exists>args st'.
                 h args st =
                   (Inr (''Error: Directory does not exist: '' @ py_str (py_repr env) cwd), st') \<and>
                 new_results st st' =
                   [failed (''Directory does not exist: '' @ py_str (py_repr env) cwd)] \<and>
                 launched st' = launched st \<and> world st' = world st))"
proof -
  let ?args = "JObj [(''repo_path'', cwd), (''action'', JStr ''list''),
                     (''message'', JStr ''m''), (''files'', JArr [JStr ''.''])]"
  note inv = run_git_command_missing [OF assms]
  have first: "case run_git_command env command cwd st of
            (r, st') \<Rightarrow>
              r = \<lparr>success = False,
                   error = Some (''Directory does not exist: '' @ py_str (py_repr env) cwd),
                   stdout = None, stderr = None, returncode = None\<rparr> \<and>
              launched st' = launched st \<and> world st' = world st"
    by (simp add: inv) (simp add: failed_def)
  have second: "\<exists>args st'.
                 h args st =
                   (Inr (''Error: Directory does not exist: '' @ py_str (py_repr env) cwd), st') \<and>
                 new_results st st' =
                   [failed (''Directory does not exist: '' @ py_str (py_repr env) cwd)] \<and>
                 launched st' = launched st \<and> world st' = world st"
    if t: "truthy cwd" and h: "(n, h) \<in> set (tool_handlers env)" for n h
  proof -
    have "\<exists>st'. h ?args st =
                   (Inr (''Error: Directory does not exist: '' @ py_str (py_repr env) cwd), st') \<and>
                 new_results st st' =
                   [failed (''Directory does not exist: '' @ py_str (py_repr env) cwd)] \<and>
                 launched st' = launched st \<and> world st' = world st"
      using h t unfolding tool_handlers_def
      by (auto simp: handle_git_status_def handle_git_branch_def handle_git_commit_def
            handle_git_push_def handle_git_pull_def handle_git_log_def handle_git_add_def
            create_commit_def branch_summary_def py_get_def inv)
    then show ?thesis by blast
  qed
  from first second show ?thesis by blast
qed

theorem missing_directory_witness:
  "path_exists sample_env (world start) (JStr ''/gone'') = Inr False \<and>
   fst (run_git_command sample_env (git [''status'']) (JStr ''/gone'') start) =
     \<lparr>success = False, error = Some ''Directory does not exist: /gone'',
      stdout = None, stderr = None, returncode = None\<rparr> \<and>
   truthy (JStr ''/gone'') \<and>
   (\<exists>args st'. handle_git_status sample_env args start =
      (Inr ''Error: Directory does not exist: /gone'', st') \<and> launched st' = []) \<and>
   (\<exists>args st'. handle_git_branch sample_env args start =
      (Inr ''Error: Directory does not exist: /gone'', st') \<and> launched st' = []) \<and>
   (\<exists>args st'. handle_git_commit sample_env args start =
      (Inr ''Error: Directory does not exist: /gone'', st') \<and> launched st' = []) \<and>
   (\<exists>args st'. handle_git_push sample_env args start =
      (Inr ''Error: Directory does not exist: /gone'', st') \<and> launched st' = []) \<and>
   (\<exists>args st'. handle_git_pull sample_env args start =
      (Inr ''Error: Directory does not exist: /gone'', st') \<and> launched st' = []) \<and>
   (\<exists>args st'. handle_git_log sample_env args start =
      (Inr ''Error: Directory does not exist: /gone'', st') \<and> launched st' = []) \<and>
   (\<exists>args st'. handle_git_add sample_env args start =
      (Inr ''Error: Directory does not exist: /gone'', st') \<and> launched st' = [])"
proof -
  have h: "path_exists sample_env (world start) (JStr ''/gone'') = Inr False"
    by (simp add: sample_env_def)
  have l: "launched start = []"
    by (simp add: start_def)
  from missing_directory [OF h, of "git [''status'']"]
  have r: "fst (run_git_command sample_env (git [''status'']) (JStr ''/gone'') start) =
     \<lparr>success = False, error = Some ''Directory does not exist: /gone'',
      stdout = None, stderr = None, returncode = None\<rparr>"
    by (simp split: prod.splits)
  from missing_directory [OF h, of "git [''status'']"]
  have "\<forall>(n, h) \<in> set (tool_handlers sample_env).
      \<exists>args st'. h args start = (Inr ''Error: Directory does not exist: /gone'', st') \<and>
         launched st' = []"
    by (simp add: l split: prod.splits) blast
  then show ?thesis
    unfolding tool_handlers_ball using h r by simp
qed

section \<open>Required arguments\<close>

lemma required_of_simps:
  "required_of ''git_status'' = [JStr ''repo_path'']"
  "required_of ''git_branch'' = [JStr ''repo_path'', JStr ''action'']"
  "required_of ''git_commit'' = [JStr ''repo_path'', JStr ''message'']"
  "required_of ''git_push'' = [JStr ''repo_path'']"
  "required_of ''git_pull'' = [JStr ''repo_path'']"
  "required_of ''git_log'' = [JStr ''repo_path'']"
  "required_of ''git_add'' = [JStr ''repo_path'', JStr ''files'']"
  by (simp_all add: required_of_def tools_def descriptor_def member_def py_get_def items_def)

lemma py_get_absent: "map_of kvs k = None \<Longrightarrow> py_get kvs k d = d"
  by (simp add: py_get_def)

text \<open>
  Claim C3. When the argument dict lacks an argument that the tool's schema lists as
  required, the handler returns a text beginning with \<open>Error:\<close> and leaves the state as it
  was: no call of the invoker, no process. The same holds for \<open>branch_name\<close> with the
  actions create, delete and checkout of \<open>git_branch\<close>, once \<open>repo_path\<close> is given; for
  create the text is exactly \<open>Error: branch_name is required for create action\<close>.
\<close>

theorem missing_required_argument:
  "(\<forall>(n, h) \<in> set (tool_handlers env). \<forall>k.
      JStr k \<in> set (required_of n) \<longrightarrow> map_of kvs k = None \<longrightarrow>
      (\<exists>txt. h (JObj kvs) st = (Inr txt, st) \<and> prefix ''Error:'' txt)) \<and>
   (\<forall>a \<in> {''create'', ''delete'', ''checkout''}.
      truthy (py_get kvs ''repo_path'' JNull) \<longrightarrow> py_get kvs ''action'' JNull = JStr a \<longrightarrow>
      map_of kvs ''branch_name'' = None \<longrightarrow>
      handle_git_branch env (JObj kvs) st =
        (Inr (''Error: branch_name is required for '' @ a @ '' action''), st)) \<and>
   (truthy (py_get kvs ''repo_path'' JNull) \<longrightarrow>
    py_get kvs ''action'' JNull = JStr ''create'' \<longrightarrow> map_of kvs ''branch_name'' = None \<longrightarrow>
      handle_git_branch env (JObj kvs) st =
        (Inr ''Error: branch_name is required for create action'', st))"
proof -
  have general: "\<exists>txt. h (JObj kvs) st = (Inr txt, st) \<and> prefix ''Error:'' txt"
    if "(n, h) \<in> set (tool_handlers env)" "JStr k \<in> set (required_of n)" "map_of kvs k = None"
    for n h k
    using that unfolding tool_handlers_def
    by (auto simp: required_of_simps py_get_absent handle_git_status_def handle_git_branch_def
          handle_git_commit_def handle_git_push_def handle_git_pull_def handle_git_log_def
          handle_git_add_def Let_def)
  have branch: "handle_git_branch env (JObj kvs) st =
        (Inr (''Error: branch_name is required for '' @ a @ '' action''), st)"
    if "a \<in> {''create'', ''delete'', ''checkout''}" "truthy (py_get kvs ''repo_path'' JNull)"
       "py_get kvs ''action'' JNull = JStr a" "map_of kvs ''branch_name'' = None" for a
    using that by (auto simp: handle_git_branch_def py_get_absent)
  from general branch [of "''create''"] branch show ?thesis
    by (simp (no_asm_simp)) blast
qed

theorem missing_required_argument_witness:
  "handle_git_branch sample_env
     (JObj [(''repo_path'', JStr ''/repo''), (''action'', JStr ''create'')]) start =
     (Inr ''Error: branch_name is required for create action'', start) \<and>
   JStr ''repo_path'' \<in> set (required_of ''git_status'') \<and>
   map_of [(''action'', JStr ''create'')] ''repo_path'' = None \<and>
   (\<exists>txt. handle_git_status sample_env (JObj [(''action'', JStr ''create'')]) start =
      (Inr txt, start) \<and> prefix ''Error:'' txt) \<and>
   (\<exists>txt. handle_git_branch sample_env (JObj [(''action'', JStr ''create'')]) start =
      (Inr txt, start) \<and> prefix ''Error:'' txt) \<and>
   (\<exists>txt. handle_git_commit sample_env (JObj [(''action'', JStr ''create'')]) start =
      (Inr txt, start) \<and> prefix ''Error:'' txt) \<and>
   (\<exists>txt. handle_git_push sample_env (JObj [(''action'', JStr ''create'')]) start =
      (Inr txt, start) \<and> prefix ''Error:'' txt) \<and>
   (\<exists>txt. handle_git_pull sample_env (JObj [(''action'', JStr ''create'')]) start =
      (Inr txt, start) \<and> prefix ''Error:'' txt) \<and>
   (\<exists>txt. handle_git_log sample_env (JObj [(''action'', JStr ''create'')]) start =
      (Inr txt, start) \<and> prefix ''Error:'' txt) \<and>
   (\<exists>txt. handle_git_add sample_env (JObj [(''action'', JStr ''create'')]) start =
      (Inr txt, start) \<and> prefix ''Error:'' txt)"
proof -
  have a: "handle_git_branch sample_env
     (JObj [(''repo_path'', JStr ''/repo''), (''action'', JStr ''create'')]) start =
     (Inr ''Error: branch_name is required for create action'', start)"
    using missing_required_argument
          [of sample_env "[(''repo_path'', JStr ''/repo''), (''action'', JStr ''create'')]" start]
    by (simp add: py_get_def)
  have r: "\<forall>(n, h) \<in> set (tool_handlers sample_env). JStr ''repo_path'' \<in> set (required_of n)"
    by (simp add: tool_handlers_ball required_of_simps)
  have "\<forall>(n, h) \<in> set (tool_handlers sample_env). \<forall>k.
      JStr k \<in> set (required_of n) \<longrightarrow> map_of [(''action'', JStr ''create'')] k = None \<longrightarrow>
      (\<exists>txt. h (JObj [(''action'', JStr ''create'')]) start = (Inr txt, start) \<and>
             prefix ''Error:'' txt)"
    using missing_required_argument [of sample_env "[(''action'', JStr ''create'')]" start]
    by blast
  with r have b: "\<forall>(n, h) \<in> set (tool_handlers sample_env).
      (\<exists>txt. h (JObj [(''action'', JStr ''create'')]) start = (Inr txt, start) \<and>
             prefix ''Error:'' txt)"
    by fastforce
  from a b [unfolded tool_handlers_ball] show ?thesis
    by (simp add: required_of_simps)
qed

lemma map_of_without: "map_of (without k kvs) k' = (if k' = k then None else map_of kvs k')"
  by (induction kvs) (auto simp: without_def)

lemma py_get_without:
  "py_get (without k kvs) k' d = (if k' = k then d else py_get kvs k' d)"
  by (simp add: py_get_def map_of_without)

lemma py_get_present: "map_of kvs k = Some v \<Longrightarrow> py_get kvs k d = v"
  by (simp add: py_get_def)

lemma required_texts:
  "prefix ''Error: '' ''Error: repo_path is required''"
  "suffix '' required'' ''Error: repo_path is required''"
  "prefix ''Error: '' ''Error: repo_path and action are required''"
  "suffix '' required'' ''Error: repo_path and action are required''"
  "prefix ''Error: '' ''Error: repo_path and message are required''"
  "suffix '' required'' ''Error: repo_path and message are required''"
  "prefix ''Error: '' ''Error: repo_path and files are required''"
  "suffix '' required'' ''Error: repo_path and files are required''"
  by (simp_all add: suffix_to_prefix)

lemma falsy_repo_path:
  assumes "\<not> truthy (py_get kvs ''repo_path'' JNull)"
  shows "handle_git_status env (JObj kvs) st = (Inr ''Error: repo_path is required'', st)"
    and "handle_git_branch env (JObj kvs) st = (Inr ''Error: repo_path and action are required'', st)"
    and "handle_git_commit env (JObj kvs) st = (Inr ''Error: repo_path and message are required'', st)"
    and "handle_git_push env (JObj kvs) st = (Inr ''Error: repo_path is required'', st)"
    and "handle_git_pull env (JObj kvs) st = (Inr ''Error: repo_path is required'', st)"
    and "handle_git_log env (JObj kvs) st = (Inr ''Error: repo_path is required'', st)"
    and "handle_git_add env (JObj kvs) st = (Inr ''Error: repo_path and files are required'', st)"
  using assms
  by (simp_all add: handle_git_status_def handle_git_branch_def handle_git_commit_def
        handle_git_push_def handle_git_pull_def handle_git_log_def handle_git_add_def Let_def)

lemma falsy_other:
  "\<not> truthy (py_get kvs ''action'' JNull) \<Longrightarrow>
     handle_git_branch env (JObj kvs) st = (Inr ''Error: repo_path and action are required'', st)"
  "\<not> truthy (py_get kvs ''message'' JNull) \<Longrightarrow>
     handle_git_commit env (JObj kvs) st = (Inr ''Error: repo_path and message are required'', st)"
  "\<not> truthy (py_get kvs ''files'' (JArr [])) \<Longrightarrow>
     handle_git_add env (JObj kvs) st = (Inr ''Error: repo_path and files are required'', st)"
  by (simp_all add: handle_git_branch_def handle_git_commit_def handle_git_add_def Let_def)

lemma falsy_branch_name:
  "a \<in> {''create'', ''delete'', ''checkout''} \<Longrightarrow> truthy (py_get kvs ''repo_path'' JNull) \<Longrightarrow>
   py_get kvs ''action'' JNull = JStr a \<Longrightarrow> \<not> truthy (py_get kvs ''branch_name'' JNull) \<Longrightarrow>
   handle_git_branch env (JObj kvs) st =
     (Inr (''Error: branch_name is required for '' @ a @ '' action''), st)"
  by (auto simp: handle_git_branch_def Let_def)

text \<open>
  Claim C10. A required argument that is present with a falsy value (an empty string, an
  empty list, and likewise \<open>null\<close>, \<open>false\<close> or \<open>0\<close>) is handled as an absent one: for an
  argument of the schema's \<open>required\<close> list the handler returns the same
  \<open>Error: ... required\<close> text as on the dict without the key, and leaves the state as it
  was (no call of the invoker, no process); so does \<open>git_branch\<close> for a falsy
  \<open>branch_name\<close> with the actions create, delete and checkout.
\<close>

theorem falsy_required_argument:
  assumes "map_of kvs k = Some v" and "\<not> truthy v"
  shows "(\<forall>(n, h) \<in> set (tool_handlers env).
            JStr k \<in> set (required_of n) \<longrightarrow>
            (\<exists>txt. h (JObj kvs) st = (Inr txt, st) \<and>
                   h (JObj (without k kvs)) st = (Inr txt, st) \<and>
                   prefix ''Error: '' txt \<and> suffix '' required'' txt)) \<and>
         (\<forall>a \<in> {''create'', ''delete'', ''checkout''}.
            k = ''branch_name'' \<longrightarrow> truthy (py_get kvs ''repo_path'' JNull) \<longrightarrow>
            py_get kvs ''action'' JNull = JStr a \<longrightarrow>
            handle_git_branch env (JObj kvs) st =
              (Inr (''Error: branch_name is required for '' @ a @ '' action''), st) \<and>
            handle_git_branch env (JObj (without k kvs)) st =
              (Inr (''Error: branch_name is required for '' @ a @ '' action''), st))"
proof -
  have here: "py_get kvs k d = v" for d
    using assms(1) by (rule py_get_present)
  have gone: "py_get (without k kvs) k d = d" for d
    by (simp add: py_get_without)
  have rp: "\<not> truthy (py_get kvs ''repo_path'' JNull) \<and>
            \<not> truthy (py_get (without k kvs) ''repo_path'' JNull)" if "k = ''repo_path''"
    using that here gone assms(2) by simp
  have ac: "\<not> truthy (py_get kvs ''action'' JNull) \<and>
            \<not> truthy (py_get (without k kvs) ''action'' JNull)" if "k = ''action''"
    using that here gone assms(2) by simp
  have ms: "\<not> truthy (py_get kvs ''message'' JNull) \<and>
            \<not> truthy (py_get (without k kvs) ''message'' JNull)" if "k = ''message''"
    using that here gone assms(2) by simp
  have fs: "\<not> truthy (py_get kvs ''files'' (JArr [])) \<and>
            \<not> truthy (py_get (without k kvs) ''files'' (JArr []))" if "k = ''files''"
    using that here gone assms(2) by simp
  have general: "\<forall>(n, h) \<in> set (tool_handlers env).
            JStr k \<in> set (required_of n) \<longrightarrow>
            (\<exists>txt. h (JObj kvs) st = (Inr txt, st) \<and>
                   h (JObj (without k kvs)) st = (Inr txt, st) \<and>
                   prefix ''Error: '' txt \<and> suffix '' required'' txt)"
    unfolding tool_handlers_ball required_of_simps
    using rp ac ms fs
    by (auto simp: falsy_repo_path falsy_other required_texts)
  have branch: "handle_git_branch env (JObj kvs) st =
              (Inr (''Error: branch_name is required for '' @ a @ '' action''), st) \<and>
            handle_git_branch env (JObj (without k kvs)) st =
              (Inr (''Error: branch_name is required for '' @ a @ '' action''), st)"
    if a: "a \<in> {''create'', ''delete'', ''checkout''}" and k: "k = ''branch_name''"
      and r: "truthy (py_get kvs ''repo_path'' JNull)"
      and c: "py_get kvs ''action'' JNull = JStr a" for a
  proof -
    have 1: "\<not> truthy (py_get kvs ''branch_name'' JNull)"
      using here k assms(2) by simp
    have 2: "\<not> truthy (py_get (without k kvs) ''branch_name'' JNull)"
      using gone k by simp
    have 3: "truthy (py_get (without k kvs) ''repo_path'' JNull)"
      using r k by (simp add: py_get_without)
    have 4: "py_get (without k kvs) ''action'' JNull = JStr a"
      using c k by (simp add: py_get_without)
    show ?thesis
      by (intro conjI) (rule falsy_branch_name [OF a r c 1], rule falsy_branch_name [OF a 3 4 2])
  qed
  from general branch show ?thesis by blast
qed


theorem falsy_required_argument_witness:
  "map_of [(''repo_path'', JStr ''/repo''), (''files'', JArr [])] ''files'' = Some (JArr []) \<and>
   \<not> truthy (JArr []) \<and> JStr ''files'' \<in> set (required_of ''git_add'') \<and>
   handle_git_add sample_env (JObj [(''repo_path'', JStr ''/repo''), (''files'', JArr [])]) start =
     (Inr ''Error: repo_path and files are required'', start) \<and>
   handle_git_add sample_env (JObj [(''repo_path'', JStr ''/repo'')]) start =
     (Inr ''Error: repo_path and files are required'', start) \<and>
   handle_git_branch sample_env
     (JObj [(''repo_path'', JStr ''/repo''), (''action'', JStr ''delete''),
            (''branch_name'', JStr [])]) start =
     (Inr ''Error: branch_name is required for delete action'', start)"
  using falsy_required_argument
          [of "[(''repo_path'', JStr ''/repo''), (''files'', JArr [])]" "''files''" "JArr []"
              sample_env start]
        falsy_required_argument
          [of "[(''repo_path'', JStr ''/repo''), (''action'', JStr ''delete''),
                (''branch_name'', JStr [])]" "''branch_name''" "JStr []" sample_env start]
  by (simp add: tool_handlers_ball required_of_simps without_def py_get_def handle_git_add_def)

section \<open>Staging before a commit\<close>

lemma run_git_command_launched:
  "run_git_command env c d st = (r, st') \<Longrightarrow>
   launched st' = launched st \<or> launched st' = launched st @ [(c, d)]"
  by (auto simp: run_git_command_def record_call_def split: sum.splits bool.splits prod.splits)

text \<open>
  Claim C4. In a \<open>git_commit\<close> call that gets past the argument check with a truthy
  \<open>add_all\<close>, when the staging call of the invoker (\<open>git add -A\<close>) reports failure the
  handler returns \<open>Error adding files: \<close> followed by that call's error text, in the state
  the staging call left: the invoker was called once, for \<open>git add -A\<close>, at most that one
  process was launched, and no \<open>git commit\<close>.
\<close>

theorem staging_failure_skips_commit:
  assumes "truthy (py_get kvs ''repo_path'' JNull)"
    and "truthy (py_get kvs ''message'' JNull)"
    and "truthy (py_get kvs ''add_all'' (JBool False))"
    and "run_git_command env (git [''add'', ''-A'']) (py_get kvs ''repo_path'' JNull) st =
           (add_result, st1)"
    and "\<not> success add_result"
  shows "handle_git_commit env (JObj kvs) st =
           (Inr (''Error adding files: '' @ error_text add_result), st1) \<and>
         invocations st1 = invocations st @
           [(git [''add'', ''-A''], py_get kvs ''repo_path'' JNull, add_result)] \<and>
         (launched st1 = launched st \<or>
          launched st1 = launched st @ [(git [''add'', ''-A''], py_get kvs ''repo_path'' JNull)]) \<and>
         (git [''commit'', ''-m''] @ [py_get kvs ''message'' JNull], py_get kvs ''repo_path'' JNull)
           \<notin> set (drop (length (launched st)) (launched st1))"
proof -
  have 1: "handle_git_commit env (JObj kvs) st =
           (Inr (''Error adding files: '' @ error_text add_result), st1)"
    using assms by (simp add: handle_git_commit_def)
  note 2 = run_git_command_invocations [OF assms(4)]
  note 3 = run_git_command_launched [OF assms(4)]
  have 4: "(git [''commit'', ''-m''] @ [py_get kvs ''message'' JNull], py_get kvs ''repo_path'' JNull)
           \<notin> set (drop (length (launched st)) (launched st1))"
    using 3 by (auto simp: git_def)
  from 1 2 3 4 show ?thesis by blast
qed

theorem staging_failure_skips_commit_witness:
  "handle_git_commit sample_env
     (JObj [(''repo_path'', JStr ''/repo''), (''message'', JStr ''m''), (''add_all'', JBool True)])
     start =
     (Inr ''Error adding files: fatal: cannot add'',
      \<lparr>world = 1, sent = [], diagnostics = [],
       launched = [(git [''add'', ''-A''], JStr ''/repo'')],
       invocations = [(git [''add'', ''-A''], JStr ''/repo'',
         \<lparr>success = False, error = None, stdout = Some [],
          stderr = Some ''fatal: cannot add'', returncode = Some 128\<rparr>)]\<rparr>)"
proof -
  let ?kvs = "[(''repo_path'', JStr ''/repo''), (''message'', JStr ''m''), (''add_all'', JBool True)]"
  let ?r = "\<lparr>success = False, error = None, stdout = Some [],
          stderr = Some ''fatal: cannot add'', returncode = Some 128\<rparr>"
  let ?st1 = "\<lparr>world = 1, sent = [], diagnostics = [],
       launched = [(git [''add'', ''-A''], JStr ''/repo'')],
       invocations = [(git [''add'', ''-A''], JStr ''/repo'', ?r)]\<rparr>"
  have a: "truthy (py_get ?kvs ''repo_path'' JNull)" "truthy (py_get ?kvs ''message'' JNull)"
    "truthy (py_get ?kvs ''add_all'' (JBool False))"
    by (simp_all add: py_get_def)
  have b: "run_git_command sample_env (git [''add'', ''-A'']) (py_get ?kvs ''repo_path'' JNull) start
      = (?r, ?st1)"
    by (simp add: run_git_command_def record_call_def sample_env_def start_def py_get_def
          finished_def)
  have c: "\<not> success ?r" by simp
  from staging_failure_skips_commit [OF a b c] show ?thesis
    by (simp add: error_text_def)
qed

section \<open>The dispatcher\<close>

lemma tool_names_simp:
  "tool_names = [JStr ''git_status'', JStr ''git_branch'', JStr ''git_commit'', JStr ''git_push'',
                 JStr ''git_pull'', JStr ''git_log'', JStr ''git_add'']"
  by (simp add: tool_names_def tools_def descriptor_def member_def py_get_def)

text \<open>
  Claim C7. A \<open>tools/call\<close> message whose \<open>params\<close> is a dict (or is absent) and whose
  \<open>params.name\<close> is none of the seven names of the registry makes the dispatcher print
  exactly one line: an error object with code \<open>-32601\<close> and message
  \<open>Unknown tool: <name>\<close>, carrying the request's \<open>id\<close>. No result is sent and the rest
  of the state is untouched.
\<close>

theorem unknown_tool:
  assumes "py_get req ''method'' JNull = JStr ''tools/call''"
    and "py_get req ''params'' (JObj []) = JObj kvs"
    and "py_get kvs ''name'' JNull \<notin> set tool_names"
  shows "handle_line env (Decoded (JObj req)) st =
           st\<lparr>sent := sent st @
             [JObj ([(''jsonrpc'', JStr ''2.0''),
                     (''error'', JObj [(''code'', JInt (- 32601)),
                        (''message'',
                         JStr (''Unknown tool: '' @
                               py_str (py_repr env) (py_get kvs ''name'' JNull)))])] @
                    (if py_get req ''id'' JNull \<noteq> JNull
                     then [(''id'', py_get req ''id'' JNull)] else []))]\<rparr>"
  using assms
  by (simp add: handle_line_def handle_tools_call_def send_error_def tool_names_simp)

theorem unknown_tool_witness:
  "sent (handle_line sample_env
     (Decoded (JObj [(''jsonrpc'', JStr ''2.0''), (''method'', JStr ''tools/call''),
        (''params'', JObj [(''name'', JStr ''git_rebase''), (''arguments'', JObj [])]),
        (''id'', JInt 7)])) start) =
   [JObj [(''jsonrpc'', JStr ''2.0''),
          (''error'', JObj [(''code'', JInt (- 32601)),
                            (''message'', JStr ''Unknown tool: git_rebase'')]),
          (''id'', JInt 7)]]"
  using unknown_tool [of "[(''jsonrpc'', JStr ''2.0''), (''method'', JStr ''tools/call''),
        (''params'', JObj [(''name'', JStr ''git_rebase''), (''arguments'', JObj [])]),
        (''id'', JInt 7)]" "[(''name'', JStr ''git_rebase''), (''arguments'', JObj [])]"
        sample_env start]
  by (simp add: py_get_def tool_names_simp start_def)

text \<open>
  Claim C1 says that a message without \<open>id\<close> is never answered. The loop checks for a
  missing \<open>id\<close> only in its last branch (\<open># Only send error for requests, not
  notifications\<close>); for \<open>initialize\<close>, \<open>tools/list\<close> and \<open>tools/call\<close> it answers a message
  without \<open>id\<close> all the same, with a response that has no \<open>id\<close> member.
\<close>

theorem notification_answered:
  "handle_line env
     (Decoded (JObj [(''jsonrpc'', JStr ''2.0''), (''method'', JStr ''initialize''),
                     (''params'', JObj [])])) st =
   st\<lparr>sent := sent st @
     [JObj [(''jsonrpc'', JStr ''2.0''),
            (''result'',
             JObj [(''protocolVersion'', JStr ''2024-11-05''),
                   (''capabilities'', JObj [(''tools'', JObj [])]),
                   (''serverInfo'', JObj [(''name'', JStr ''github-mcp-server''),
                                          (''version'', JStr ''1.0.0'')])])]]\<rparr> \<and>
   handle_line env
     (Decoded (JObj [(''jsonrpc'', JStr ''2.0''), (''method'', JStr ''tools/list'')])) st =
   st\<lparr>sent := sent st @
     [JObj [(''jsonrpc'', JStr ''2.0''), (''result'', JObj [(''tools'', JArr tools)])]]\<rparr> \<and>
   handle_line env
     (Decoded (JObj [(''jsonrpc'', JStr ''2.0''), (''method'', JStr ''tools/call''),
                     (''params'', JObj [(''name'', JStr ''git_rebase'')])])) st =
   st\<lparr>sent := sent st @
     [JObj [(''jsonrpc'', JStr ''2.0''),
            (''error'', JObj [(''code'', JInt (- 32601)),
                              (''message'', JStr ''Unknown tool: git_rebase'')])]]\<rparr> \<and>
   handle_line env
     (Decoded (JObj [(''jsonrpc'', JStr ''2.0''), (''method'', JStr ''tools/call''),
                     (''params'', JObj [(''name'', JStr ''git_status'')])])) st =
   st\<lparr>sent := sent st @
     [JObj [(''jsonrpc'', JStr ''2.0''),
            (''result'', JObj [(''content'',
               JArr [JObj [(''type'', JStr ''text''),
                           (''text'', JStr ''Error: repo_path is required'')]])])]]\<rparr>"
  by (simp add: handle_line_def handle_initialize_def handle_tools_list_def
        handle_tools_call_def send_response_def send_error_def py_get_def
        send_content_def handle_git_status_def)

section \<open>Handlers print nothing\<close>

lemma run_git_command_sent [simp]:
  "sent (snd (run_git_command env c d st)) = sent st"
  by (simp add: run_git_command_def record_call_def case_prod_beta split: sum.split bool.split)

lemma sent_status: "sent (snd (handle_git_status env args st)) = sent st"
  by (cases args)
     (simp_all add: handle_git_status_def Let_def case_prod_beta split: option.split)

lemma sent_branch_summary [simp]:
  "sent (snd (branch_summary env a rs)) = sent (snd rs)"
  by (simp add: branch_summary_def Let_def case_prod_beta split: option.split)

lemma sent_branch: "sent (snd (handle_git_branch env args st)) = sent st"
  by (cases args) (simp_all add: handle_git_branch_def Let_def)

lemma sent_create_commit [simp]: "sent (snd (create_commit env r m st)) = sent st"
  by (simp add: create_commit_def case_prod_beta split: option.split)

lemma sent_commit: "sent (snd (handle_git_commit env args st)) = sent st"
  by (cases args) (simp_all add: handle_git_commit_def Let_def case_prod_beta)

lemma sent_push: "sent (snd (handle_git_push env args st)) = sent st"
  by (cases args)
     (simp_all add: handle_git_push_def Let_def case_prod_beta split: option.split)

lemma sent_pull: "sent (snd (handle_git_pull env args st)) = sent st"
  by (cases args)
     (simp_all add: handle_git_pull_def Let_def case_prod_beta split: option.split)

lemma sent_log: "sent (snd (handle_git_log env args st)) = sent st"
  by (cases args)
     (simp_all add: handle_git_log_def Let_def case_prod_beta split: option.split)

lemma sent_add: "sent (snd (handle_git_add env args st)) = sent st"
  by (cases args)
     (simp_all add: handle_git_add_def Let_def case_prod_beta
        split: option.split json.split sum.split)

lemma sent_send_content:
  "sent (snd hr) = sent st \<Longrightarrow>
   sent (snd (send_content JNull hr)) = sent st \<or>
   (\<exists>res. sent (snd (send_content JNull hr)) =
      sent st @ [JObj [(''jsonrpc'', JStr ''2.0''), (''result'', res)]])"
  by (cases hr) (auto simp: send_content_def send_response_def split: sum.splits)

lemma sent_tools_call_null:
  "sent (snd (handle_tools_call env params JNull st)) = sent st \<or>
   (\<exists>res. sent (snd (handle_tools_call env params JNull st)) =
      sent st @ [JObj [(''jsonrpc'', JStr ''2.0''), (''result'', res)]]) \<or>
   (\<exists>err. sent (snd (handle_tools_call env params JNull st)) =
      sent st @ [JObj [(''jsonrpc'', JStr ''2.0''), (''error'', err)]])"
proof -
  define Q where "Q xs \<longleftrightarrow> xs = sent st \<or>
     (\<exists>res. xs = sent st @ [JObj [(''jsonrpc'', JStr ''2.0''), (''result'', res)]]) \<or>
     (\<exists>err. xs = sent st @ [JObj [(''jsonrpc'', JStr ''2.0''), (''error'', err)]])" for xs
  have c: "Q (sent (snd (send_content JNull hr)))" if "sent (snd hr) = sent st" for hr
    using sent_send_content [OF that] unfolding Q_def by blast
  have e: "Q (sent (send_error code msg JNull st))" for code msg
    unfolding Q_def by (simp add: send_error_def)
  have n: "Q (sent st)"
    unfolding Q_def by simp
  have "Q (sent (snd (handle_tools_call env params JNull st)))"
    by (cases params)
       (simp_all add: handle_tools_call_def Let_def n e c sent_status sent_branch sent_commit
          sent_push sent_pull sent_log sent_add)
  then show ?thesis unfolding Q_def .
qed

lemma sent_after_tools_call:
  "sent (case handle_tools_call env params rid st of
           (Inl e, st') \<Rightarrow> report e st' | (Inr u, st') \<Rightarrow> st') =
   sent (snd (handle_tools_call env params rid st))"
  by (cases "handle_tools_call env params rid st")
     (simp add: report_def split: sum.splits)

text \<open>
  Claim C9. A message whose \<open>id\<close> member is JSON \<open>null\<close> is handled exactly as the same
  message without the member: both give \<open>request_id = None\<close>. Every line printed for it is
  an object without an \<open>id\<close> member, and a method other than \<open>initialize\<close>,
  \<open>initialized\<close>, \<open>tools/list\<close> and \<open>tools/call\<close> leaves the state as it was: nothing is
  printed.
\<close>

theorem null_id_is_no_id:
  assumes "map_of req ''id'' = Some JNull"
  shows "handle_line env (Decoded (JObj req)) st =
           handle_line env (Decoded (JObj (without ''id'' req))) st \<and>
         (\<forall>r \<in> set (drop (length (sent st)) (sent (handle_line env (Decoded (JObj req)) st))).
            \<exists>m. r = JObj m \<and> map_of m ''id'' = None) \<and>
         (py_get req ''method'' JNull \<notin>
            {JStr ''initialize'', JStr ''initialized'', JStr ''tools/list'', JStr ''tools/call''}
          \<longrightarrow> handle_line env (Decoded (JObj req)) st = st)"
proof -
  have id: "py_get req ''id'' JNull = JNull"
    using assms by (simp add: py_get_def)
  have same: "handle_line env (Decoded (JObj req)) st =
           handle_line env (Decoded (JObj (without ''id'' req))) st"
    by (simp add: handle_line_def py_get_without id)
  define Q where "Q xs \<longleftrightarrow> xs = sent st \<or>
     (\<exists>res. xs = sent st @ [JObj [(''jsonrpc'', JStr ''2.0''), (''result'', res)]]) \<or>
     (\<exists>err. xs = sent st @ [JObj [(''jsonrpc'', JStr ''2.0''), (''error'', err)]])" for xs
  have n: "Q (sent st)"
    unfolding Q_def by simp
  have r: "Q (sent (send_response res JNull st))" for res
    unfolding Q_def by (simp add: send_response_def)
  have c: "Q (sent (snd (handle_tools_call env params JNull st)))" for params
    using sent_tools_call_null [of env params st] unfolding Q_def .
  have "Q (sent (handle_line env (Decoded (JObj req)) st))"
    by (simp add: handle_line_def Let_def id handle_initialize_def handle_tools_list_def
          sent_after_tools_call n r c)
  then have omitted:
    "\<forall>r \<in> set (drop (length (sent st)) (sent (handle_line env (Decoded (JObj req)) st))).
            \<exists>m. r = JObj m \<and> map_of m ''id'' = None"
    unfolding Q_def by auto
  have silent: "handle_line env (Decoded (JObj req)) st = st"
    if "py_get req ''method'' JNull \<notin>
            {JStr ''initialize'', JStr ''initialized'', JStr ''tools/list'', JStr ''tools/call''}"
    using that by (simp add: handle_line_def Let_def id)
  from same omitted silent show ?thesis by blast
qed

theorem null_id_is_no_id_witness:
  "map_of [(''method'', JStr ''initialize''), (''id'', JNull)] ''id'' = Some JNull \<and>
   handle_line sample_env (Decoded (JObj [(''method'', JStr ''initialize''), (''id'', JNull)])) start =
   handle_line sample_env (Decoded (JObj [(''method'', JStr ''initialize'')])) start \<and>
   handle_line sample_env (Decoded (JObj [(''method'', JStr ''resources/list''), (''id'', JNull)]))
     start = start"
  using null_id_is_no_id [of "[(''method'', JStr ''initialize''), (''id'', JNull)]" sample_env start]
    null_id_is_no_id [of "[(''method'', JStr ''resources/list''), (''id'', JNull)]" sample_env start]
  by (auto simp: without_def py_get_def)

section \<open>How faults are reported\<close>

lemma handle_tools_call_known:
  "(n, h) \<in> set (tool_handlers env) \<Longrightarrow> py_get kvs ''name'' JNull = JStr n \<Longrightarrow>
   handle_tools_call env (JObj kvs) rid st =
     send_content rid (h (py_get kvs ''arguments'' (JObj [])) st)"
  by (auto simp: tool_handlers_def handle_tools_call_def)

lemma run_git_command_new_results:
  "run_git_command env c d st = (r, st') \<Longrightarrow> new_results st st' = [r]"
  by (drule run_git_command_invocations) (simp add: new_results_def)

lemma fault_status:
  assumes "handle_git_status env (JObj kvs) st = (Inr txt, st')"
    and "new_results st st' = [] \<or> (\<exists>r \<in> set (new_results st st'). \<not> success r)"
  shows "prefix ''Error:'' txt"
proof -
  obtain result st1 where rg:
    "run_git_command env (git [''status'']) (py_get kvs ''repo_path'' JNull) st = (result, st1)"
    by force
  note nr = run_git_command_new_results [OF rg]
  show ?thesis
    using assms rg nr
    by (auto simp: handle_git_status_def Let_def split: if_splits option.splits)
qed

lemma fault_branch_summary:
  assumes "branch_summary env a (run_git_command env c d st) = (Inr txt, st')"
    and "new_results st st' = [] \<or> (\<exists>r \<in> set (new_results st st'). \<not> success r)"
  shows "prefix ''Error:'' txt"
proof -
  obtain result st1 where rg: "run_git_command env c d st = (result, st1)"
    by force
  note nr = run_git_command_new_results [OF rg]
  show ?thesis
    using assms rg nr
    by (auto simp: branch_summary_def Let_def split: if_splits option.splits)
qed

lemma fault_branch:
  assumes "handle_git_branch env (JObj kvs) st = (Inr txt, st')"
    and "new_results st st' = [] \<or> (\<exists>r \<in> set (new_results st st'). \<not> success r)"
  shows "prefix ''Error:'' txt"
  using assms(1) fault_branch_summary [OF _ assms(2), of env]
  by (simp add: handle_git_branch_def Let_def split: if_splits) auto

lemma fault_push:
  assumes "handle_git_push env (JObj kvs) st = (Inr txt, st')"
    and "new_results st st' = [] \<or> (\<exists>r \<in> set (new_results st st'). \<not> success r)"
  shows "prefix ''Error:'' txt"
proof -
  obtain result st1 where rg:
    "run_git_command env
       (git [''push''] @ (if truthy (py_get kvs ''force'' (JBool False)) then [JStr ''--force'']
                          else []) @
        (if truthy (py_get kvs ''branch'' JNull) then [JStr ''origin'', py_get kvs ''branch'' JNull]
         else []))
       (py_get kvs ''repo_path'' JNull) st = (result, st1)"
    by force
  note nr = run_git_command_new_results [OF rg]
  have "handle_git_push env (JObj kvs) st =
      (if \<not> truthy (py_get kvs ''repo_path'' JNull) then (Inr ''Error: repo_path is required'', st)
       else if success result then
         (case stdout result of None \<Rightarrow> (Inl KeyError, st1)
          | Some out \<Rightarrow>
              if out \<noteq> [] then (Inr out, st1)
              else (case stderr result of None \<Rightarrow> (Inl KeyError, st1)
                    | Some e \<Rightarrow> (Inr (if e \<noteq> [] then e else ''Push completed successfully''), st1)))
       else (Inr (''Error: '' @ error_text result), st1))"
    by (simp add: handle_git_push_def Let_def rg)
  with assms nr show ?thesis
    by (auto split: if_splits option.splits)
qed

lemma fault_pull:
  assumes "handle_git_pull env (JObj kvs) st = (Inr txt, st')"
    and "new_results st st' = [] \<or> (\<exists>r \<in> set (new_results st st'). \<not> success r)"
  shows "prefix ''Error:'' txt"
proof -
  obtain result st1 where rg:
    "run_git_command env
       (git [''pull''] @
        (if truthy (py_get kvs ''branch'' JNull) then [JStr ''origin'', py_get kvs ''branch'' JNull]
         else []))
       (py_get kvs ''repo_path'' JNull) st = (result, st1)"
    by force
  note nr = run_git_command_new_results [OF rg]
  have "handle_git_pull env (JObj kvs) st =
      (if \<not> truthy (py_get kvs ''repo_path'' JNull) then (Inr ''Error: repo_path is required'', st)
       else if success result then
         (case stdout result of None \<Rightarrow> (Inl KeyError, st1)
          | Some out \<Rightarrow> (Inr (''Pull completed successfully:\<newline>'' @ out), st1))
       else (Inr (''Error: '' @ error_text result), st1))"
    by (simp add: handle_git_pull_def Let_def rg)
  with assms nr show ?thesis
    by (auto split: if_splits option.splits)
qed

lemma fault_log:
  assumes "handle_git_log env (JObj kvs) st = (Inr txt, st')"
    and "new_results st st' = [] \<or> (\<exists>r \<in> set (new_results st st'). \<not> success r)"
  shows "prefix ''Error:'' txt"
proof -
  obtain result st1 where rg:
    "run_git_command env
       (git [''log'', ''-'' @ py_str (py_repr env) (py_get kvs ''limit'' (JInt 10)), ''--oneline'',
             ''--decorate'', ''--graph''])
       (py_get kvs ''repo_path'' JNull) st = (result, st1)"
    by force
  note nr = run_git_command_new_results [OF rg]
  show ?thesis
    using assms rg nr
    by (auto simp: handle_git_log_def Let_def split: if_splits option.splits)
qed

lemma fault_add:
  assumes "handle_git_add env (JObj kvs) st = (Inr txt, st')"
    and "new_results st st' = [] \<or> (\<exists>r \<in> set (new_results st st'). \<not> success r)"
  shows "prefix ''Error:'' txt"
proof (cases "py_get kvs ''files'' (JArr [])")
  case (JArr fs)
  obtain result st1 where rg:
    "run_git_command env (git [''add''] @ fs) (py_get kvs ''repo_path'' JNull) st = (result, st1)"
    by force
  note nr = run_git_command_new_results [OF rg]
  show ?thesis
    using assms rg nr JArr
    by (auto simp: handle_git_add_def Let_def split: if_splits sum.splits)
qed (use assms in \<open>auto simp: handle_git_add_def Let_def split: if_splits\<close>)

lemma create_commit_result:
  assumes "create_commit env rp m st0 = (Inr txt, st')"
  shows "\<exists>c r. invocations st' = invocations st0 @ [(c, rp, r)] \<and>
               (\<not> success r \<longrightarrow> prefix ''Error:'' txt)"
proof -
  obtain result st1 where rg:
    "run_git_command env (git [''commit'', ''-m''] @ [m]) rp st0 = (result, st1)"
    by force
  note inv = run_git_command_invocations [OF rg]
  show ?thesis
    using assms rg inv
    by (auto simp: create_commit_def split: if_splits option.splits)
qed

lemma fault_commit:
  assumes "handle_git_commit env (JObj kvs) st = (Inr txt, st')"
    and "new_results st st' = [] \<or> (\<exists>r \<in> set (new_results st st'). \<not> success r)"
  shows "prefix ''Error:'' txt \<or>
         truthy (py_get kvs ''add_all'' (JBool False)) \<and>
         (\<exists>r. new_results st st' = [r] \<and> \<not> success r \<and>
              txt = ''Error adding files: '' @ error_text r)"
proof -
  let ?rp = "py_get kvs ''repo_path'' JNull"
  let ?m = "py_get kvs ''message'' JNull"
  consider (bad) "\<not> truthy ?rp \<or> \<not> truthy ?m"
    | (plain) "truthy ?rp" "truthy ?m" "\<not> truthy (py_get kvs ''add_all'' (JBool False))"
    | (staged) "truthy ?rp" "truthy ?m" "truthy (py_get kvs ''add_all'' (JBool False))"
    by blast
  then show ?thesis
  proof cases
    case bad
    with assms(1) show ?thesis by (auto simp: handle_git_commit_def)
  next
    case plain
    with assms(1) have "create_commit env ?rp ?m st = (Inr txt, st')"
      by (simp add: handle_git_commit_def)
    from create_commit_result [OF this] assms(2) show ?thesis
      by (auto simp: new_results_def)
  next
    case staged
    obtain ra st1 where rg: "run_git_command env (git [''add'', ''-A'']) ?rp st = (ra, st1)"
      by force
    note inv = run_git_command_invocations [OF rg]
    show ?thesis
    proof (cases "success ra")
      case False
      with assms(1) staged rg have "txt = ''Error adding files: '' @ error_text ra" "st' = st1"
        by (simp_all add: handle_git_commit_def)
      with False staged inv show ?thesis
        by (simp add: new_results_def)
    next
      case True
      with assms(1) staged rg have "create_commit env ?rp ?m st1 = (Inr txt, st')"
        by (simp add: handle_git_commit_def)
      from create_commit_result [OF this] inv assms(2) True show ?thesis
        by (auto simp: new_results_def)
    qed
  qed
qed

text \<open>
  Claim C2, as the code has it. Take any of the seven handlers on an argument dict, returning
  a text. If the call was a fault (the handler made no call of the invoker, which is how a
  missing required argument ends, or some call of the invoker reported \<open>success = False\<close>,
  which is how an absent directory, a nonzero exit and a failure to launch end), then the
  text begins with \<open>Error:\<close>, except when the staging step of \<open>git_commit\<close> with \<open>add_all\<close>
  failed: then the text is \<open>Error adding files: \<close> followed by the staging error. In every
  case \<open>handle_tools_call\<close> sends the text as the content of a result, not an error object.
\<close>

theorem operation_fault_reported:
  assumes "(n, h) \<in> set (tool_handlers env)"
    and "h (JObj kvs) st = (Inr txt, st')"
    and "new_results st st' = [] \<or> (\<exists>r \<in> set (new_results st st'). \<not> success r)"
  shows "(prefix ''Error:'' txt \<or>
          n = ''git_commit'' \<and> truthy (py_get kvs ''add_all'' (JBool False)) \<and>
          (\<exists>r. new_results st st' = [r] \<and> \<not> success r \<and>
               txt = ''Error adding files: '' @ error_text r)) \<and>
         handle_tools_call env (JObj [(''name'', JStr n), (''arguments'', JObj kvs)])
           request_id st =
           (Inr (),
            send_response
              (JObj [(''content'',
                      JArr [JObj [(''type'', JStr ''text''), (''text'', JStr txt)]])])
              request_id st')"
proof -
  have "handle_tools_call env (JObj [(''name'', JStr n), (''arguments'', JObj kvs)])
           request_id st = send_content request_id (h (JObj kvs) st)"
    using handle_tools_call_known [OF assms(1), of "[(''name'', JStr n), (''arguments'', JObj kvs)]"]
    by (simp add: py_get_def)
  then have sent: "handle_tools_call env (JObj [(''name'', JStr n), (''arguments'', JObj kvs)])
           request_id st =
           (Inr (),
            send_response
              (JObj [(''content'',
                      JArr [JObj [(''type'', JStr ''text''), (''text'', JStr txt)]])])
              request_id st')"
    by (simp add: assms(2) send_content_def)
  have "prefix ''Error:'' txt \<or>
          n = ''git_commit'' \<and> truthy (py_get kvs ''add_all'' (JBool False)) \<and>
          (\<exists>r. new_results st st' = [r] \<and> \<not> success r \<and>
               txt = ''Error adding files: '' @ error_text r)"
    using assms(1)
  proof (simp only: tool_handlers_def set_simps insert_iff empty_iff prod.inject, elim disjE conjE)
    assume "n = ''git_commit''" "h = handle_git_commit env"
    with fault_commit [OF _ assms(3), of env kvs "txt"] assms(2) show ?thesis by simp
  qed (use assms(2,3) in \<open>auto dest: fault_status fault_branch fault_push fault_pull fault_log
        fault_add\<close>)
  with sent show ?thesis by blast
qed

theorem operation_fault_reported_witness:
  "(''git_status'', handle_git_status sample_env) \<in> set (tool_handlers sample_env) \<and>
   handle_git_status sample_env (JObj [(''repo_path'', JStr ''/gone'')]) start =
     (Inr ''Error: Directory does not exist: /gone'',
      start\<lparr>invocations :=
        [(git [''status''], JStr ''/gone'', failed ''Directory does not exist: /gone'')]\<rparr>) \<and>
   prefix ''Error:'' ''Error: Directory does not exist: /gone'' \<and>
   handle_tools_call sample_env
     (JObj [(''name'', JStr ''git_status''),
            (''arguments'', JObj [(''repo_path'', JStr ''/gone'')])]) (JInt 3) start =
     (Inr (),
      send_response
        (JObj [(''content'',
           JArr [JObj [(''type'', JStr ''text''),
                       (''text'', JStr ''Error: Directory does not exist: /gone'')]])])
        (JInt 3)
        (start\<lparr>invocations :=
           [(git [''status''], JStr ''/gone'', failed ''Directory does not exist: /gone'')]\<rparr>))"
proof -
  let ?st = "start\<lparr>invocations :=
        [(git [''status''], JStr ''/gone'', failed ''Directory does not exist: /gone'')]\<rparr>"
  have a: "(''git_status'', handle_git_status sample_env) \<in> set (tool_handlers sample_env)"
    by (simp add: tool_handlers_def)
  have e: "path_exists sample_env (world start) (JStr ''/gone'') = Inr False"
    by (simp add: sample_env_def)
  have i: "invocations start = []"
    by (simp add: start_def)
  have b: "handle_git_status sample_env (JObj [(''repo_path'', JStr ''/gone'')]) start =
     (Inr ''Error: Directory does not exist: /gone'', ?st)"
    by (simp add: handle_git_status_def py_get_def run_git_command_missing [OF e] i)
  have c: "new_results start ?st = [] \<or> (\<exists>r \<in> set (new_results start ?st). \<not> success r)"
    by (simp add: new_results_def i)
  from operation_fault_reported [OF a b c, of "JInt 3"] a b show ?thesis
    by simp
qed

text \<open>
  Claim C2 as the spec words it (every fault gives a text beginning with \<open>Error:\<close>) fails
  for \<open>git_commit\<close> with \<open>add_all\<close> on a directory that does not exist: the staging step
  fails and the text begins with \<open>Error adding files:\<close>.
\<close>

theorem error_prefix_counterexample:
  "path_exists sample_env (world start) (JStr ''/gone'') = Inr False \<and>
   fst (handle_git_commit sample_env
          (JObj [(''repo_path'', JStr ''/gone''), (''message'', JStr ''m''),
                 (''add_all'', JBool True)]) start) =
     Inr ''Error adding files: Directory does not exist: /gone'' \<and>
   \<not> prefix ''Error:'' ''Error adding files: Directory does not exist: /gone''"
proof -
  have e: "path_exists sample_env (world start) (JStr ''/gone'') = Inr False"
    by (simp add: sample_env_def)
  show ?thesis
    by (simp add: e handle_git_commit_def py_get_def run_git_command_missing [OF e])
qed

section \<open>The registry and the handlers\<close>

lemma tool_names_distinct: "distinct tool_names"
  by (simp add: tool_names_simp)

lemma required_absent_rejected:
  assumes "(n, h) \<in> set (tool_handlers env)" and "JStr k \<in> set (required_of n)"
    and "map_of kvs k = None"
  shows "\<exists>txt. h (JObj kvs) st = (Inr txt, st) \<and> prefix ''Error:'' txt"
  using assms unfolding tool_handlers_def
  by (auto simp: required_of_simps py_get_absent handle_git_status_def handle_git_branch_def
        handle_git_commit_def handle_git_push_def handle_git_pull_def handle_git_log_def
        handle_git_add_def Let_def)

lemma run_git_command_ok:
  assumes "path_exists env = (\<lambda>w p. Inr True)"
    and "subprocess_run env =
           (\<lambda>w c d. (Inr \<lparr>cp_returncode = 0, cp_stdout = ''ok'', cp_stderr = []\<rparr>, w))"
  shows "run_git_command env c d st =
           (\<lparr>success = True, error = None, stdout = Some ''ok'', stderr = Some [],
             returncode = Some 0\<rparr>,
            st\<lparr>world := world st, launched := launched st @ [(c, d)],
               invocations := invocations st @
                 [(c, d, \<lparr>success = True, error = None, stdout = Some ''ok'', stderr = Some [],
                           returncode = Some 0\<rparr>)]\<rparr>)"
  by (simp add: run_git_command_def record_call_def finished_def assms)

lemma optional_absent_accepted:
  fixes env :: "'s env" and st :: "'s state"
  assumes ok: "path_exists env = (\<lambda>w p. Inr True)"
    "subprocess_run env =
       (\<lambda>w c d. (Inr \<lparr>cp_returncode = 0, cp_stdout = ''ok'', cp_stderr = []\<rparr>, w))"
  shows "\<forall>(n, h) \<in> set (tool_handlers env).
           JStr k \<notin> set (required_of n) \<longrightarrow>
           (\<exists>kvs. map_of kvs k = None \<and>
               \<not> (\<exists>txt. h (JObj kvs) st = (Inr txt, st) \<and> prefix ''Error:'' txt))"
proof -
  note run = run_git_command_ok [OF ok]
  let ?rp = "(''repo_path'', JStr ''/repo'')"
  let ?P = "\<lambda>h kvs. map_of kvs k = None \<and>
               \<not> (\<exists>txt. h (JObj kvs) st = (Inr txt, st) \<and> prefix ''Error:'' txt)"
  have status: "\<exists>kvs. ?P (handle_git_status env) kvs" if "k \<noteq> ''repo_path''"
    using that by (intro exI [of _ "[?rp]"]) (auto simp: handle_git_status_def py_get_def run Let_def)
  have branch: "\<exists>kvs. ?P (handle_git_branch env) kvs" if "k \<noteq> ''repo_path''" "k \<noteq> ''action''"
    using that by (intro exI [of _ "[?rp, (''action'', JStr ''list'')]"])
      (auto simp: handle_git_branch_def branch_summary_def py_get_def run Let_def)
  have commit: "\<exists>kvs. ?P (handle_git_commit env) kvs" if "k \<noteq> ''repo_path''" "k \<noteq> ''message''"
    using that by (intro exI [of _ "[?rp, (''message'', JStr ''m'')]"])
      (auto simp: handle_git_commit_def create_commit_def py_get_def run Let_def)
  have push: "\<exists>kvs. ?P (handle_git_push env) kvs" if "k \<noteq> ''repo_path''"
    using that by (intro exI [of _ "[?rp]"]) (auto simp: handle_git_push_def py_get_def run Let_def)
  have pull: "\<exists>kvs. ?P (handle_git_pull env) kvs" if "k \<noteq> ''repo_path''"
    using that by (intro exI [of _ "[?rp]"]) (auto simp: handle_git_pull_def py_get_def run Let_def)
  have log: "\<exists>kvs. ?P (handle_git_log env) kvs" if "k \<noteq> ''repo_path''"
    using that by (intro exI [of _ "[?rp]"]) (auto simp: handle_git_log_def py_get_def run Let_def)
  have add: "\<exists>kvs. ?P (handle_git_add env) kvs" if "k \<noteq> ''repo_path''" "k \<noteq> ''files''"
    using that by (intro exI [of _ "[?rp, (''files'', JArr [JStr ''.''])]"])
      (auto simp: handle_git_add_def py_get_def run Let_def)
  show ?thesis
    unfolding tool_handlers_ball required_of_simps
    using status branch commit push pull log add by simp
qed

text \<open>
  Claim C8. \<open>tools/list\<close> answers with one result whose \<open>tools\<close> member is the registry:
  seven descriptors, named \<open>git_status\<close>, \<open>git_branch\<close>, \<open>git_commit\<close>, \<open>git_push\<close>,
  \<open>git_pull\<close>, \<open>git_log\<close>, \<open>git_add\<close> in this order, all different, and the names the
  dispatcher binds to handlers. For each tool, an argument name is in the \<open>required\<close> list of
  its schema exactly when the tool's handler rejects every argument dict without it, in
  every environment and state: an \<open>Error:\<close> text, with the state as it was.
\<close>

theorem tools_list_registry:
  fixes st :: "'s state"
  shows "sent (handle_tools_list request_id st) =
           sent st @
           [JObj ([(''jsonrpc'', JStr ''2.0''), (''result'', JObj [(''tools'', JArr tools)])] @
                  (if request_id \<noteq> JNull then [(''id'', request_id)] else []))] \<and>
         length tools = 7 \<and>
         tool_names = [JStr ''git_status'', JStr ''git_branch'', JStr ''git_commit'',
                       JStr ''git_push'', JStr ''git_pull'', JStr ''git_log'', JStr ''git_add''] \<and>
         distinct tool_names \<and>
         (\<forall>env :: 's env. map (\<lambda>nh. JStr (fst nh)) (tool_handlers env) = tool_names) \<and>
         (\<forall>n k. JStr n \<in> set tool_names \<longrightarrow>
            (JStr k \<in> set (required_of n)) =
            (\<forall>(env :: 's env) (s :: 's state) kvs h.
               map_of (tool_handlers env) n = Some h \<longrightarrow> map_of kvs k = None \<longrightarrow>
               (\<exists>txt. h (JObj kvs) s = (Inr txt, s) \<and> prefix ''Error:'' txt)))"
proof -
  have listed: "sent (handle_tools_list request_id st) =
           sent st @
           [JObj ([(''jsonrpc'', JStr ''2.0''), (''result'', JObj [(''tools'', JArr tools)])] @
                  (if request_id \<noteq> JNull then [(''id'', request_id)] else []))]"
    by (simp add: handle_tools_list_def send_response_def)
  have seven: "length tools = 7"
    by (simp add: tools_def)
  have bound: "map (\<lambda>nh. JStr (fst nh)) (tool_handlers env) = tool_names" for env :: "'s env"
    by (simp add: tool_handlers_def tool_names_simp)
  have match: "(JStr k \<in> set (required_of n)) =
            (\<forall>(env :: 's env) (s :: 's state) kvs h.
               map_of (tool_handlers env) n = Some h \<longrightarrow> map_of kvs k = None \<longrightarrow>
               (\<exists>txt. h (JObj kvs) s = (Inr txt, s) \<and> prefix ''Error:'' txt))"
    if n: "JStr n \<in> set tool_names" for n k
  proof
    assume "JStr k \<in> set (required_of n)"
    then show "\<forall>(env :: 's env) (s :: 's state) kvs h.
               map_of (tool_handlers env) n = Some h \<longrightarrow> map_of kvs k = None \<longrightarrow>
               (\<exists>txt. h (JObj kvs) s = (Inr txt, s) \<and> prefix ''Error:'' txt)"
      using required_absent_rejected map_of_SomeD by metis
  next
    assume all: "\<forall>(env :: 's env) (s :: 's state) kvs h.
               map_of (tool_handlers env) n = Some h \<longrightarrow> map_of kvs k = None \<longrightarrow>
               (\<exists>txt. h (JObj kvs) s = (Inr txt, s) \<and> prefix ''Error:'' txt)"
    define env :: "'s env" where "env =
      \<lparr>path_exists = (\<lambda>w p. Inr True),
       subprocess_run = (\<lambda>w c d.
         (Inr \<lparr>cp_returncode = 0, cp_stdout = ''ok'', cp_stderr = []\<rparr>, w)),
       py_repr = (\<lambda>v. [])\<rparr>"
    have ok: "path_exists env = (\<lambda>w p. Inr True)"
      "subprocess_run env =
        (\<lambda>w c d. (Inr \<lparr>cp_returncode = 0, cp_stdout = ''ok'', cp_stderr = []\<rparr>, w))"
      by (simp_all add: env_def)
    from n obtain h where h: "map_of (tool_handlers env) n = Some h"
      by (auto simp: tool_names_simp tool_handlers_def)
    then have mem: "(n, h) \<in> set (tool_handlers env)"
      by (rule map_of_SomeD)
    show "JStr k \<in> set (required_of n)"
    proof (rule ccontr)
      assume "JStr k \<notin> set (required_of n)"
      with optional_absent_accepted [OF ok, of k st] mem
      obtain kvs where "map_of kvs k = None"
        "\<not> (\<exists>txt. h (JObj kvs) st = (Inr txt, st) \<and> prefix ''Error:'' txt)"
        by blast
      with all h show False by blast
    qed
  qed
  from listed seven tool_names_simp tool_names_distinct bound match show ?thesis
    by blast
qed

theorem tools_list_registry_witness:
  "sent (handle_tools_list (JInt 2) start) =
     [JObj [(''jsonrpc'', JStr ''2.0''), (''result'', JObj [(''tools'', JArr tools)]),
            (''id'', JInt 2)]] \<and>
   JStr ''git_branch'' \<in> set tool_names \<and>
   JStr ''action'' \<in> set (required_of ''git_branch'') \<and>
   JStr ''branch_name'' \<notin> set (required_of ''git_branch'') \<and>
   (\<exists>(env :: nat env) (s :: nat state) kvs h.
      map_of (tool_handlers env) ''git_branch'' = Some h \<and> map_of kvs ''branch_name'' = None \<and>
      \<not> (\<exists>txt. h (JObj kvs) s = (Inr txt, s) \<and> prefix ''Error:'' txt))"
proof -
  note t = tools_list_registry [of "JInt 2" start]
  from t have a: "sent (handle_tools_list (JInt 2) start) =
     [JObj [(''jsonrpc'', JStr ''2.0''), (''result'', JObj [(''tools'', JArr tools)]),
            (''id'', JInt 2)]]"
    by (simp add: start_def)
  have n: "JStr ''git_branch'' \<in> set tool_names"
    by (simp add: tool_names_simp)
  have r: "JStr ''action'' \<in> set (required_of ''git_branch'')"
    "JStr ''branch_name'' \<notin> set (required_of ''git_branch'')"
    by (simp_all add: required_of_simps)
  from t have "\<forall>n k. JStr n \<in> set tool_names \<longrightarrow>
            (JStr k \<in> set (required_of n)) =
            (\<forall>(env :: nat env) (s :: nat state) kvs h.
               map_of (tool_handlers env) n = Some h \<longrightarrow> map_of kvs k = None \<longrightarrow>
               (\<exists>txt. h (JObj kvs) s = (Inr txt, s) \<and> prefix ''Error:'' txt))"
    by blast
  with n r(2) have "\<not> (\<forall>(env :: nat env) (s :: nat state) kvs h.
               map_of (tool_handlers env) ''git_branch'' = Some h \<longrightarrow>
               map_of kvs ''branch_name'' = None \<longrightarrow>
               (\<exists>txt. h (JObj kvs) s = (Inr txt, s) \<and> prefix ''Error:'' txt))"
    by blast
  then have e: "\<exists>(env :: nat env) (s :: nat state) kvs h.
      map_of (tool_handlers env) ''git_branch'' = Some h \<and> map_of kvs ''branch_name'' = None \<and>
      \<not> (\<exists>txt. h (JObj kvs) s = (Inr txt, s) \<and> prefix ''Error:'' txt)"
    by blast
  from a n r e show ?thesis by blast
qed

end
